theory Spec2Isabelle
  imports Main "HOL-Library.Word"
begin

unbundle bit_operations_syntax

section \<open>The machine state of Stop_Watch.c\<close>

text \<open>
  The program is a single C file for an AVR ATmega16/32. Its whole state is three global
  \<open>uint8_t\<close> counters and the memory-mapped I/O registers it reads and writes. A register
  is modelled as the byte the program last stored there: what the hardware itself does to
  a register (for instance clearing an interrupt flag when a one is written to it) is not
  part of the C code and is left out.
\<close>

type_synonym uint8_t = "8 word"
type_synonym uint16_t = "16 word"

record state =
  g_seconds :: uint8_t
  g_minutes :: uint8_t
  g_hours :: uint8_t
  SREG :: uint8_t
  GIFR :: uint8_t
  GICR :: uint8_t
  MCUCR :: uint8_t
  MCUCSR :: uint8_t
  TIFR :: uint8_t
  TIMSK :: uint8_t
  TCCR1A :: uint8_t
  TCCR1B :: uint8_t
  TCNT1 :: uint16_t
  OCR1A :: uint16_t
  DDRA :: uint8_t
  DDRB :: uint8_t
  DDRC :: uint8_t
  DDRD :: uint8_t
  PORTA :: uint8_t
  PORTB :: uint8_t
  PORTC :: uint8_t
  PORTD :: uint8_t

text \<open>
  Bit positions inside the registers. The source takes them from the device header
  \<open>avr/io.h\<close>, which is part of the compiler's library and not of the repository; the
  values are those of the ATmega16/32 header.
\<close>

definition INTF0 :: nat where "INTF0 = 6"
definition INTF1 :: nat where "INTF1 = 7"
definition INTF2 :: nat where "INTF2 = 5"
definition INT0 :: nat where "INT0 = 6"
definition INT1 :: nat where "INT1 = 7"
definition INT2 :: nat where "INT2 = 5"
definition ISC01 :: nat where "ISC01 = 1"
definition ISC10 :: nat where "ISC10 = 2"
definition ISC11 :: nat where "ISC11 = 3"
definition ISC2 :: nat where "ISC2 = 6"
definition CS10 :: nat where "CS10 = 0"
definition CS11 :: nat where "CS11 = 1"
definition CS12 :: nat where "CS12 = 2"
definition WGM12 :: nat where "WGM12 = 3"
definition FOC1A :: nat where "FOC1A = 3"
definition OCF1A :: nat where "OCF1A = 4"
definition OCIE1A :: nat where "OCIE1A = 4"
definition PD2 :: nat where "PD2 = 2"
definition PD3 :: nat where "PD3 = 3"
definition PB2 :: nat where "PB2 = 2"

text \<open>\<open>1 << n\<close> as a byte.\<close>

definition BV :: "nat \<Rightarrow> uint8_t" where
  "BV n = push_bit n 1"

section \<open>Interrupt service routines\<close>

datatype vector = INT0_vect | INT1_vect | INT2_vect | TIMER1_COMPA_vect

text \<open>
  \<open>ISR(INT0_vect)\<close> resets the clock, \<open>ISR(INT1_vect)\<close> pauses it, \<open>ISR(INT2_vect)\<close> resumes
  it and \<open>ISR(TIMER1_COMPA_vect)\<close> counts one second. Statements run in the order of the
  source; \<open>g_seconds += 1\<close> is an addition in \<open>uint8_t\<close> and wraps from 255 to 0.
\<close>

fun ISR :: "vector \<Rightarrow> state \<Rightarrow> state" where
  "ISR INT0_vect s =
     (let s1 = s\<lparr>GIFR := GIFR s OR BV INTF0\<rparr>;
          s2 = s1\<lparr>g_seconds := 0\<rparr>;
          s3 = s2\<lparr>g_minutes := 0\<rparr>
      in s3\<lparr>g_hours := 0\<rparr>)"
| "ISR INT1_vect s =
     (let s1 = s\<lparr>GIFR := GIFR s OR BV INTF1\<rparr>;
          s2 = s1\<lparr>TCCR1B := TCCR1B s1 AND NOT (BV CS10)\<rparr>
      in s2\<lparr>TCCR1B := TCCR1B s2 AND NOT (BV CS12)\<rparr>)"
| "ISR INT2_vect s =
     (let s1 = s\<lparr>GIFR := GIFR s OR BV INTF2\<rparr>
      in s1\<lparr>TCCR1B := TCCR1B s1 OR (BV CS10 OR BV CS12)\<rparr>)"
| "ISR TIMER1_COMPA_vect s =
     (let s1 = s\<lparr>TIFR := TIFR s OR BV OCF1A\<rparr>
      in s1\<lparr>g_seconds := g_seconds s1 + 1\<rparr>)"

section \<open>Initialisation\<close>

definition INT0_Init :: "state \<Rightarrow> state" where
  "INT0_Init s =
     (let s1 = s\<lparr>DDRD := DDRD s AND NOT (BV PD2)\<rparr>;
          s2 = s1\<lparr>PORTD := PORTD s1 OR BV PD2\<rparr>;
          s3 = s2\<lparr>MCUCR := MCUCR s2 OR BV ISC01\<rparr>
      in s3\<lparr>GICR := GICR s3 OR BV INT0\<rparr>)"

definition INT1_Init :: "state \<Rightarrow> state" where
  "INT1_Init s =
     (let s1 = s\<lparr>DDRD := DDRD s AND NOT (BV PD3)\<rparr>;
          s2 = s1\<lparr>MCUCR := MCUCR s1 OR (BV ISC10 OR BV ISC11)\<rparr>
      in s2\<lparr>GICR := GICR s2 OR BV INT1\<rparr>)"

definition INT2_Init :: "state \<Rightarrow> state" where
  "INT2_Init s =
     (let s1 = s\<lparr>DDRB := DDRB s AND NOT (BV PB2)\<rparr>;
          s2 = s1\<lparr>PORTB := PORTB s1 OR BV PB2\<rparr>;
          s3 = s2\<lparr>MCUCSR := MCUCSR s2 AND NOT (BV ISC2)\<rparr>
      in s3\<lparr>GICR := GICR s3 OR BV INT2\<rparr>)"

definition TIMER1_CTC_Init :: "state \<Rightarrow> state" where
  "TIMER1_CTC_Init s =
     (let s1 = s\<lparr>TCCR1A := TCCR1A s OR BV FOC1A\<rparr>;
          s2 = s1\<lparr>TCCR1B := TCCR1B s1 OR (BV WGM12 OR (BV CS10 OR BV CS12))\<rparr>;
          s3 = s2\<lparr>TCNT1 := 0\<rparr>;
          s4 = s3\<lparr>OCR1A := 976\<rparr>
      in s4\<lparr>TIMSK := TIMSK s4 OR BV OCIE1A\<rparr>)"

text \<open>
  The statements of \<open>main\<close> before its loop. \<open>sei()\<close> sets the global interrupt enable
  bit, bit 7 of the status register.
\<close>

definition main_init :: "state \<Rightarrow> state" where
  "main_init s =
     (let s1 = s\<lparr>DDRC := DDRC s OR 0x0F\<rparr>;
          s2 = s1\<lparr>DDRA := DDRA s1 OR 0x3F\<rparr>;
          s3 = s2\<lparr>SREG := SREG s2 OR 0x80\<rparr>
      in TIMER1_CTC_Init (INT2_Init (INT1_Init (INT0_Init s3))))"

section \<open>The main loop\<close>

text \<open>
  The three checks at the top of the loop body, in the order of the source. Each is an
  \<open>if\<close>, not a loop; the later checks see what the earlier ones wrote.
\<close>

definition carry_seconds :: "state \<Rightarrow> state" where
  "carry_seconds s =
     (if g_seconds s = 60
      then (let s1 = s\<lparr>g_seconds := 0\<rparr> in s1\<lparr>g_minutes := g_minutes s1 + 1\<rparr>)
      else s)"

definition carry_minutes :: "state \<Rightarrow> state" where
  "carry_minutes s =
     (if g_minutes s = 60
      then (let s1 = s\<lparr>g_minutes := 0\<rparr> in s1\<lparr>g_hours := g_hours s1 + 1\<rparr>)
      else s)"

definition carry_hours :: "state \<Rightarrow> state" where
  "carry_hours s = (if g_hours s = 60 then s\<lparr>g_hours := 0\<rparr> else s)"

definition carry_normalization :: "state \<Rightarrow> state" where
  "carry_normalization s = carry_hours (carry_minutes (carry_seconds s))"

text \<open>
  The display routines. Each has two halves, one per digit: a write to the enable port
  \<open>PORTA\<close>, a write to the digit port \<open>PORTC\<close>, and a delay that changes nothing in
  the state. \<open>%\<close> and \<open>/\<close> on \<open>uint8_t\<close> are the unsigned operations.
\<close>

definition Display_Seconds_ones :: "state \<Rightarrow> state" where
  "Display_Seconds_ones s =
     (let s1 = s\<lparr>PORTA := (PORTA s AND 0xC0) OR 0x01\<rparr>
      in s1\<lparr>PORTC := (PORTC s1 AND 0xF0) OR (g_seconds s1 mod 10)\<rparr>)"

definition Display_Seconds_tens :: "state \<Rightarrow> state" where
  "Display_Seconds_tens s =
     (let s1 = s\<lparr>PORTA := (PORTA s AND 0xC0) OR 0x02\<rparr>
      in s1\<lparr>PORTC := (PORTC s1 AND 0xF0) OR (g_seconds s1 div 10)\<rparr>)"

definition Display_Seconds :: "state \<Rightarrow> state" where
  "Display_Seconds s = Display_Seconds_tens (Display_Seconds_ones s)"

definition Display_Minutes_ones :: "state \<Rightarrow> state" where
  "Display_Minutes_ones s =
     (let s1 = s\<lparr>PORTA := (PORTA s AND 0xC0) OR 0x04\<rparr>
      in s1\<lparr>PORTC := (PORTC s1 AND 0xF0) OR (g_minutes s1 mod 10)\<rparr>)"

definition Display_Minutes_tens :: "state \<Rightarrow> state" where
  "Display_Minutes_tens s =
     (let s1 = s\<lparr>PORTA := (PORTA s AND 0xC0) OR 0x08\<rparr>
      in s1\<lparr>PORTC := (PORTC s1 AND 0xF0) OR (g_minutes s1 div 10)\<rparr>)"

definition Display_Minutes :: "state \<Rightarrow> state" where
  "Display_Minutes s = Display_Minutes_tens (Display_Minutes_ones s)"

definition Display_Hours_ones :: "state \<Rightarrow> state" where
  "Display_Hours_ones s =
     (let s1 = s\<lparr>PORTA := (PORTA s AND 0xC0) OR 0x10\<rparr>
      in s1\<lparr>PORTC := (PORTC s1 AND 0xF0) OR (g_hours s1 mod 10)\<rparr>)"

definition Display_Hours_tens :: "state \<Rightarrow> state" where
  "Display_Hours_tens s =
     (let s1 = s\<lparr>PORTA := (PORTA s AND 0xC0) OR 0x20\<rparr>
      in s1\<lparr>PORTC := (PORTC s1 AND 0xF0) OR (g_hours s1 div 10)\<rparr>)"

definition Display_Hours :: "state \<Rightarrow> state" where
  "Display_Hours s = Display_Hours_tens (Display_Hours_ones s)"

text \<open>One pass of the body of \<open>while(1)\<close>.\<close>

definition loop_body :: "state \<Rightarrow> state" where
  "loop_body s = Display_Hours (Display_Minutes (Display_Seconds (carry_normalization s)))"

section \<open>Interrupts between passes of the loop\<close>

text \<open>
  The interrupts that fire between two passes of the loop body run one after the other, in
  the order they arrive. A run of the program is a list of such rounds: each round is its
  interrupts followed by one pass of the loop body. \<open>main\<close> never returns, so a run is
  any finite prefix of what the device does.
\<close>

definition interrupts :: "vector list \<Rightarrow> state \<Rightarrow> state" where
  "interrupts vs s = fold ISR vs s"

fun run :: "vector list list \<Rightarrow> state \<Rightarrow> state" where
  "run [] s = s"
| "run (vs # rounds) s = run rounds (loop_body (interrupts vs s))"

text \<open>The number of timer interrupts in a round.\<close>

definition ticks :: "vector list \<Rightarrow> nat" where
  "ticks vs = count_list vs TIMER1_COMPA_vect"

section \<open>The ports and the timer as the hardware reads them\<close>

text \<open>
  The six low bits of \<open>PORTA\<close> enable the six display positions (the comment at line 92
  of the source): position 0 is the ones digit of the seconds, position 5 the tens digit
  of the hours. \<open>enabled_positions\<close> lists the positions whose enable bit is set.
\<close>

definition enabled_positions :: "uint8_t \<Rightarrow> nat list" where
  "enabled_positions p = filter (bit p) [0..<6]"

text \<open>
  The timer clock is stopped when the three clock-select bits of \<open>TCCR1B\<close> are clear
  (the comment at lines 43 to 45 of the source).
\<close>

definition timer_stopped :: "state \<Rightarrow> bool" where
  "timer_stopped s \<longleftrightarrow>
     \<not> bit (TCCR1B s) CS10 \<and> \<not> bit (TCCR1B s) CS11 \<and> \<not> bit (TCCR1B s) CS12"

text \<open>
  Modelled from the spec: the timer hardware that raises the compare-match interrupt, which
  is not part of the source. By sections 3, 4.1 and 4.2 of the specification the run state
  is the timer's clock-select bits: while the clock input is disabled no tick event occurs,
  and while it is enabled one tick event occurs per period. \<open>tick_period\<close> is the passing
  of one such period.
\<close>

definition tick_period :: "state \<Rightarrow> state" where
  "tick_period s = (if timer_stopped s then s else ISR TIMER1_COMPA_vect s)"

section \<open>Tick periods and statements of the main loop\<close>

text \<open>
  What goes on between two interrupts: a tick period passes, or the main loop executes
  one of the six statements of its body. \<open>elapse\<close> performs a list of these in the order
  given; \<open>one_pass\<close> is the body of the loop in program order.
\<close>

datatype activity =
  Tick_Period | Seconds_Check | Minutes_Check | Hours_Check
  | Seconds_Display | Minutes_Display | Hours_Display

fun perform :: "activity \<Rightarrow> state \<Rightarrow> state" where
  "perform Tick_Period s = tick_period s"
| "perform Seconds_Check s = carry_seconds s"
| "perform Minutes_Check s = carry_minutes s"
| "perform Hours_Check s = carry_hours s"
| "perform Seconds_Display s = Display_Seconds s"
| "perform Minutes_Display s = Display_Minutes s"
| "perform Hours_Display s = Display_Hours s"

definition elapse :: "activity list \<Rightarrow> state \<Rightarrow> state" where
  "elapse as s = fold perform as s"

definition one_pass :: "activity list" where
  "one_pass = [Seconds_Check, Minutes_Check, Hours_Check,
     Seconds_Display, Minutes_Display, Hours_Display]"

section \<open>Counter ranges\<close>

text \<open>
  \<open>in_range\<close>: the three counters are at most 59 (they are unsigned, so at least 0).
  \<open>one_ahead\<close>: the same, except that seconds may have reached 60 and not yet been
  carried.
\<close>

definition in_range :: "state \<Rightarrow> bool" where
  "in_range s \<longleftrightarrow> g_seconds s \<le> 59 \<and> g_minutes s \<le> 59 \<and> g_hours s \<le> 59"

definition one_ahead :: "state \<Rightarrow> bool" where
  "one_ahead s \<longleftrightarrow> g_seconds s \<le> 60 \<and> g_minutes s \<le> 59 \<and> g_hours s \<le> 59"

section \<open>Concrete states\<close>

text \<open>
  The state with every counter and every register zero; the counters are zero at program
  start by their initialisers (lines 17 to 19 of the source).
\<close>

definition zero_state :: state where
  "zero_state = \<lparr>g_seconds = 0, g_minutes = 0, g_hours = 0, SREG = 0, GIFR = 0, GICR = 0,
     MCUCR = 0, MCUCSR = 0, TIFR = 0, TIMSK = 0, TCCR1A = 0, TCCR1B = 0, TCNT1 = 0,
     OCR1A = 0, DDRA = 0, DDRB = 0, DDRC = 0, DDRD = 0, PORTA = 0, PORTB = 0, PORTC = 0,
     PORTD = 0\<rparr>"

section \<open>Basic facts\<close>

lemmas bit_positions =
  INTF0_def INTF1_def INTF2_def INT0_def INT1_def INT2_def ISC01_def ISC10_def ISC11_def
  ISC2_def CS10_def CS11_def CS12_def WGM12_def FOC1A_def OCF1A_def OCIE1A_def PD2_def
  PD3_def PB2_def

lemmas carry_defs = carry_normalization_def carry_seconds_def carry_minutes_def carry_hours_def

lemmas display_defs =
  Display_Seconds_def Display_Seconds_ones_def Display_Seconds_tens_def
  Display_Minutes_def Display_Minutes_ones_def Display_Minutes_tens_def
  Display_Hours_def Display_Hours_ones_def Display_Hours_tens_def

lemmas init_defs =
  main_init_def INT0_Init_def INT1_Init_def INT2_Init_def TIMER1_CTC_Init_def

section \<open>Reset\<close>

text \<open>
  C5. For every state the reset handler sets seconds, minutes and hours to 0, and it is
  idempotent: run any number of times in a row, with nothing in between, it leaves the
  same state as one run, so the three counters stay at 0.
\<close>

theorem reset_zero_idempotent:
  "g_seconds (ISR INT0_vect s) = 0 \<and> g_minutes (ISR INT0_vect s) = 0 \<and>
   g_hours (ISR INT0_vect s) = 0 \<and>
   (ISR INT0_vect ^^ Suc n) s = ISR INT0_vect s \<and>
   g_seconds ((ISR INT0_vect ^^ Suc n) s) = 0 \<and>
   g_minutes ((ISR INT0_vect ^^ Suc n) s) = 0 \<and>
   g_hours ((ISR INT0_vect ^^ Suc n) s) = 0"
proof -
  have once: "ISR INT0_vect (ISR INT0_vect t) = ISR INT0_vect t" for t
    by (simp add: Let_def word_bw_assocs)
  have many: "(ISR INT0_vect ^^ Suc n) s = ISR INT0_vect s"
  proof (induction n)
    case 0
    show ?case by simp
  next
    case (Suc n)
    have "(ISR INT0_vect ^^ Suc (Suc n)) s = ISR INT0_vect ((ISR INT0_vect ^^ Suc n) s)"
      by simp
    also have "\<dots> = ISR INT0_vect (ISR INT0_vect s)"
      by (simp only: Suc.IH)
    finally show ?case by (simp only: once)
  qed
  have zero: "g_seconds (ISR INT0_vect s) = 0 \<and> g_minutes (ISR INT0_vect s) = 0 \<and>
      g_hours (ISR INT0_vect s) = 0"
    by (simp add: Let_def)
  from zero many show ?thesis by (simp only: simp_thms)
qed

section \<open>Carry normalization\<close>

text \<open>
  C2. The carry step of each pass of the loop makes three checks in order, each with at
  most one carry: if seconds is 60, seconds becomes 0 and minutes goes up by 1; then, if
  minutes (as it now is) equals 60, minutes becomes 0 and hours goes up by 1; then, if
  hours (as it now is) equals 60, hours becomes 0. A counter that does not equal 60 when
  it is checked is left as it is, and nothing but the three counters is written.
\<close>

theorem carry_normalization_three_checks:
  "carry_normalization s =
     (let sec = g_seconds s;
          m1 = (if sec = 60 then g_minutes s + 1 else g_minutes s);
          h1 = (if m1 = 60 then g_hours s + 1 else g_hours s)
      in s\<lparr>g_seconds := (if sec = 60 then 0 else sec),
           g_minutes := (if m1 = 60 then 0 else m1),
           g_hours := (if h1 = 60 then 0 else h1)\<rparr>)"
  by (simp add: carry_defs Let_def)

theorem carry_normalization_three_checks_witness:
  "carry_normalization (zero_state\<lparr>g_seconds := 60, g_minutes := 59, g_hours := 61\<rparr>) =
     zero_state\<lparr>g_seconds := 0, g_minutes := 0, g_hours := 62\<rparr>"
  using carry_normalization_three_checks
    [of "zero_state\<lparr>g_seconds := 60, g_minutes := 59, g_hours := 61\<rparr>"]
  by (simp add: zero_state_def)

section \<open>The tick handler\<close>

text \<open>
  C4. For every state the timer handler adds exactly 1 to the seconds counter (in
  \<open>uint8_t\<close>, so modulo 256) and leaves minutes and hours as they were. No other routine
  increments seconds: the reset handler writes 0 to it, the carry step writes 0 to it when
  it is 60 and leaves it otherwise, and the pause and resume handlers, the display
  routines and the initialisation leave it unchanged.
\<close>

theorem tick_increments_seconds_only:
  "g_seconds (ISR TIMER1_COMPA_vect s) = g_seconds s + 1 \<and>
   unat (g_seconds (ISR TIMER1_COMPA_vect s)) = (unat (g_seconds s) + 1) mod 256 \<and>
   g_minutes (ISR TIMER1_COMPA_vect s) = g_minutes s \<and>
   g_hours (ISR TIMER1_COMPA_vect s) = g_hours s \<and>
   g_seconds (ISR INT0_vect s) = 0 \<and>
   g_seconds (ISR INT1_vect s) = g_seconds s \<and>
   g_seconds (ISR INT2_vect s) = g_seconds s \<and>
   g_seconds (carry_normalization s) = (if g_seconds s = 60 then 0 else g_seconds s) \<and>
   g_seconds (Display_Seconds s) = g_seconds s \<and>
   g_seconds (Display_Minutes s) = g_seconds s \<and>
   g_seconds (Display_Hours s) = g_seconds s \<and>
   g_seconds (main_init s) = g_seconds s"
proof -
  have tick: "g_seconds (ISR TIMER1_COMPA_vect s) = g_seconds s + 1"
    by (simp add: Let_def)
  have "unat (g_seconds s + 1) = (unat (g_seconds s) + 1) mod 256"
    by (simp add: unat_word_ariths)
  with tick have wrap:
    "unat (g_seconds (ISR TIMER1_COMPA_vect s)) = (unat (g_seconds s) + 1) mod 256"
    by simp
  have frame: "g_minutes (ISR TIMER1_COMPA_vect s) = g_minutes s \<and>
      g_hours (ISR TIMER1_COMPA_vect s) = g_hours s"
    by (simp add: Let_def)
  have handlers: "g_seconds (ISR INT0_vect s) = 0 \<and>
      g_seconds (ISR INT1_vect s) = g_seconds s \<and> g_seconds (ISR INT2_vect s) = g_seconds s"
    by (simp add: Let_def)
  have carry: "g_seconds (carry_normalization s) = (if g_seconds s = 60 then 0 else g_seconds s)"
    by (simp add: carry_defs Let_def)
  have display: "g_seconds (Display_Seconds s) = g_seconds s \<and>
      g_seconds (Display_Minutes s) = g_seconds s \<and> g_seconds (Display_Hours s) = g_seconds s"
    by (simp add: display_defs Let_def)
  have init: "g_seconds (main_init s) = g_seconds s"
    by (simp add: init_defs Let_def)
  from tick wrap frame handlers carry display init show ?thesis
    by (simp only: simp_thms)
qed

section \<open>Carrying into the hours\<close>

text \<open>
  C9, as the code has it. From minutes 59 and seconds 59 with any hours value \<open>h\<close>, one
  tick followed by two passes of the carry step gives seconds 0 and minutes 0; hours is
  \<open>h + 1\<close> unless \<open>h\<close> is 59, in which case the third check wraps it to 0.
\<close>

theorem hour_carry_wraps_at_sixty:
  assumes "g_seconds s = 59" and "g_minutes s = 59"
  shows "g_seconds (carry_normalization (carry_normalization (ISR TIMER1_COMPA_vect s))) = 0 \<and>
    g_minutes (carry_normalization (carry_normalization (ISR TIMER1_COMPA_vect s))) = 0 \<and>
    g_hours (carry_normalization (carry_normalization (ISR TIMER1_COMPA_vect s))) =
      (if g_hours s = 59 then 0 else g_hours s + 1)"
proof -
  have "g_hours s + 1 = 60 \<longleftrightarrow> g_hours s = 60 - 1"
    by (simp only: eq_diff_eq)
  then have eq: "g_hours s + 1 = 60 \<longleftrightarrow> g_hours s = 59"
    by simp
  show ?thesis
    using assms eq by (simp add: carry_defs Let_def)
qed

theorem hour_carry_wraps_at_sixty_witness:
  "g_seconds (zero_state\<lparr>g_seconds := 59, g_minutes := 59, g_hours := 2\<rparr>) = 59 \<and>
   g_minutes (zero_state\<lparr>g_seconds := 59, g_minutes := 59, g_hours := 2\<rparr>) = 59 \<and>
   g_seconds (carry_normalization (carry_normalization (ISR TIMER1_COMPA_vect
      (zero_state\<lparr>g_seconds := 59, g_minutes := 59, g_hours := 2\<rparr>)))) = 0 \<and>
   g_minutes (carry_normalization (carry_normalization (ISR TIMER1_COMPA_vect
      (zero_state\<lparr>g_seconds := 59, g_minutes := 59, g_hours := 2\<rparr>)))) = 0 \<and>
   g_hours (carry_normalization (carry_normalization (ISR TIMER1_COMPA_vect
      (zero_state\<lparr>g_seconds := 59, g_minutes := 59, g_hours := 2\<rparr>)))) = 3"
  using hour_carry_wraps_at_sixty
    [of "zero_state\<lparr>g_seconds := 59, g_minutes := 59, g_hours := 2\<rparr>"]
  by simp

text \<open>
  The claim as it is written, hours \<open>= h + 1\<close> for every \<open>h\<close>, fails at \<open>h = 59\<close>: the
  hours counter ends at 0, not 60.
\<close>

theorem hour_carry_counterexample:
  "g_seconds (zero_state\<lparr>g_seconds := 59, g_minutes := 59, g_hours := 59\<rparr>) = 59 \<and>
   g_minutes (zero_state\<lparr>g_seconds := 59, g_minutes := 59, g_hours := 59\<rparr>) = 59 \<and>
   g_hours (carry_normalization (carry_normalization (ISR TIMER1_COMPA_vect
      (zero_state\<lparr>g_seconds := 59, g_minutes := 59, g_hours := 59\<rparr>)))) \<noteq>
   g_hours (zero_state\<lparr>g_seconds := 59, g_minutes := 59, g_hours := 59\<rparr>) + 1"
  by (simp add: zero_state_def carry_defs Let_def)

section \<open>Sixty-one ticks\<close>

text \<open>The counters after a pass of the loop body are those after its carry step.\<close>

lemma loop_body_counters:
  "g_seconds (loop_body s) = g_seconds (carry_normalization s) \<and>
   g_minutes (loop_body s) = g_minutes (carry_normalization s) \<and>
   g_hours (loop_body s) = g_hours (carry_normalization s)"
  by (simp add: loop_body_def display_defs Let_def)

lemma tick_round_counters:
  "g_seconds (loop_body (interrupts [TIMER1_COMPA_vect] s)) =
     g_seconds (carry_normalization (s\<lparr>g_seconds := g_seconds s + 1\<rparr>)) \<and>
   g_minutes (loop_body (interrupts [TIMER1_COMPA_vect] s)) =
     g_minutes (carry_normalization (s\<lparr>g_seconds := g_seconds s + 1\<rparr>)) \<and>
   g_hours (loop_body (interrupts [TIMER1_COMPA_vect] s)) =
     g_hours (carry_normalization (s\<lparr>g_seconds := g_seconds s + 1\<rparr>))"
  by (simp add: loop_body_counters interrupts_def Let_def carry_defs)

lemma of_nat_Suc_not_60: "k < 59 \<Longrightarrow> (of_nat k :: 8 word) + 1 \<noteq> 60"
proof
  assume k: "k < 59" and eq: "(of_nat k :: 8 word) + 1 = 60"
  have "unat ((of_nat k :: 8 word) + 1) = (unat (of_nat k :: 8 word) + 1) mod 256"
    by (simp add: unat_word_ariths)
  also have "unat (of_nat k :: 8 word) = k mod 256"
    by (simp add: unat_of_nat)
  finally have "unat ((of_nat k :: 8 word) + 1) = Suc k"
    using k by simp
  with eq have "unat (60 :: 8 word) = Suc k"
    by (simp only:)
  with k show False by simp
qed

lemma ticks_within_minute:
  "g_seconds s = of_nat k \<Longrightarrow> g_minutes s = 0 \<Longrightarrow> g_hours s = 0 \<Longrightarrow> k + n \<le> 59 \<Longrightarrow>
   g_seconds (run (replicate n [TIMER1_COMPA_vect]) s) = of_nat (k + n) \<and>
   g_minutes (run (replicate n [TIMER1_COMPA_vect]) s) = 0 \<and>
   g_hours (run (replicate n [TIMER1_COMPA_vect]) s) = 0"
proof (induction n arbitrary: s k)
  case 0
  then show ?case by simp
next
  case (Suc n)
  let ?t = "loop_body (interrupts [TIMER1_COMPA_vect] s)"
  from Suc.prems have k: "k < 59" by simp
  have ne: "(of_nat k :: 8 word) + 1 \<noteq> 60" using k by (rule of_nat_Suc_not_60)
  have sec: "g_seconds ?t = of_nat (Suc k)"
    using Suc.prems ne by (simp add: tick_round_counters carry_defs Let_def)
  have mh: "g_minutes ?t = 0 \<and> g_hours ?t = 0"
    using Suc.prems ne by (simp add: tick_round_counters carry_defs Let_def)
  from Suc.prems have "Suc k + n \<le> 59" by simp
  with Suc.IH [of ?t "Suc k"] sec mh show ?case by simp
qed


lemma run_append: "run (xs @ ys) s = run ys (run xs s)"
  by (induction xs arbitrary: s) simp_all

text \<open>
  C8. From counters (0, 0, 0), sixty-one rounds of one timer interrupt followed by one pass
  of the loop body (and no other interrupt) end with seconds 1, minutes 1 and hours 0.
\<close>

theorem sixty_one_ticks:
  assumes "g_seconds s = 0" and "g_minutes s = 0" and "g_hours s = 0"
  shows "g_seconds (run (replicate 61 [TIMER1_COMPA_vect]) s) = 1 \<and>
    g_minutes (run (replicate 61 [TIMER1_COMPA_vect]) s) = 1 \<and>
    g_hours (run (replicate 61 [TIMER1_COMPA_vect]) s) = 0"
proof -
  let ?T = "[TIMER1_COMPA_vect]"
  let ?a = "run (replicate 59 ?T) s"
  let ?b = "loop_body (interrupts ?T ?a)"
  let ?c = "loop_body (interrupts ?T ?b)"
  have a: "g_seconds ?a = 59 \<and> g_minutes ?a = 0 \<and> g_hours ?a = 0"
    using ticks_within_minute [of s 0 59] assms by simp
  have b: "g_seconds ?b = 0 \<and> g_minutes ?b = 1 \<and> g_hours ?b = 0"
    using a by (simp add: tick_round_counters carry_defs Let_def)
  have c: "g_seconds ?c = 1 \<and> g_minutes ?c = 1 \<and> g_hours ?c = 0"
    using b by (simp add: tick_round_counters carry_defs Let_def)
  have "replicate 61 ?T = replicate (59 + 2) ?T"
    by simp
  also have "\<dots> = replicate 59 ?T @ replicate 2 ?T"
    by (simp only: replicate_add)
  also have "replicate 2 ?T = [?T, ?T]"
    by (simp add: numeral_2_eq_2)
  finally have "replicate 61 ?T = replicate 59 ?T @ [?T, ?T]" .
  then have "run (replicate 61 ?T) s = ?c"
    by (simp only: run_append run.simps)
  with c show ?thesis by (simp only:)
qed


theorem sixty_one_ticks_witness:
  "g_seconds (main_init zero_state) = 0 \<and> g_minutes (main_init zero_state) = 0 \<and>
   g_hours (main_init zero_state) = 0 \<and>
   g_seconds (run (replicate 61 [TIMER1_COMPA_vect]) (main_init zero_state)) = 1 \<and>
   g_minutes (run (replicate 61 [TIMER1_COMPA_vect]) (main_init zero_state)) = 1 \<and>
   g_hours (run (replicate 61 [TIMER1_COMPA_vect]) (main_init zero_state)) = 0"
proof -
  have z: "g_seconds (main_init zero_state) = 0 \<and> g_minutes (main_init zero_state) = 0 \<and>
      g_hours (main_init zero_state) = 0"
    by (simp add: init_defs zero_state_def Let_def)
  with sixty_one_ticks [of "main_init zero_state"] show ?thesis
    by (simp only: simp_thms)
qed

section \<open>The counters stay in range\<close>

text \<open>
  A handler other than the timer's keeps the counters in range; the timer handler may
  take seconds to 60; one carry step brings the counters back into range.
\<close>

lemma in_range_one_ahead: "in_range s \<Longrightarrow> one_ahead s"
  by (simp add: in_range_def one_ahead_def) unat_arith

lemma ISR_no_tick_in_range: "v \<noteq> TIMER1_COMPA_vect \<Longrightarrow> in_range s \<Longrightarrow> in_range (ISR v s)"
  by (cases v) (simp_all add: in_range_def Let_def)

lemma ISR_no_tick_one_ahead: "v \<noteq> TIMER1_COMPA_vect \<Longrightarrow> one_ahead s \<Longrightarrow> one_ahead (ISR v s)"
  by (cases v) (simp_all add: one_ahead_def Let_def)

lemma ISR_tick_one_ahead: "in_range s \<Longrightarrow> one_ahead (ISR TIMER1_COMPA_vect s)"
proof -
  assume "in_range s"
  then have r: "g_seconds s \<le> 59" "g_minutes s \<le> 59" "g_hours s \<le> 59"
    by (simp_all add: in_range_def)
  from r(1) have "g_seconds s + 1 \<le> 60" by unat_arith
  with r show ?thesis by (simp add: one_ahead_def Let_def)
qed

lemma no_ticks_one_ahead:
  "ticks vs = 0 \<Longrightarrow> one_ahead s \<Longrightarrow> one_ahead (interrupts vs s)"
proof (induction vs arbitrary: s)
  case Nil
  then show ?case by (simp add: interrupts_def)
next
  case (Cons v vs)
  from Cons.prems(1) have v: "v \<noteq> TIMER1_COMPA_vect" and rest: "ticks vs = 0"
    by (auto simp: ticks_def split: if_splits)
  from v Cons.prems(2) have "one_ahead (ISR v s)" by (rule ISR_no_tick_one_ahead)
  with rest have "one_ahead (interrupts vs (ISR v s))" by (rule Cons.IH)
  then show ?case by (simp add: interrupts_def)
qed

lemma one_tick_one_ahead:
  "ticks vs \<le> 1 \<Longrightarrow> in_range s \<Longrightarrow> one_ahead (interrupts vs s)"
proof (induction vs arbitrary: s)
  case Nil
  then show ?case by (simp add: interrupts_def in_range_one_ahead)
next
  case (Cons v vs)
  show ?case
  proof (cases "v = TIMER1_COMPA_vect")
    case True
    with Cons.prems(1) have rest: "ticks vs = 0" by (simp add: ticks_def)
    from Cons.prems(2) have "one_ahead (ISR TIMER1_COMPA_vect s)" by (rule ISR_tick_one_ahead)
    with rest have "one_ahead (interrupts vs (ISR TIMER1_COMPA_vect s))"
      by (rule no_ticks_one_ahead)
    with True show ?thesis by (simp add: interrupts_def)
  next
    case False
    with Cons.prems(1) have rest: "ticks vs \<le> 1" by (simp add: ticks_def)
    from False Cons.prems(2) have "in_range (ISR v s)" by (rule ISR_no_tick_in_range)
    with rest have "one_ahead (interrupts vs (ISR v s))" by (rule Cons.IH)
    then show ?thesis by (simp add: interrupts_def)
  qed
qed

lemma carry_in_range: "one_ahead s \<Longrightarrow> in_range (carry_normalization s)"
proof -
  assume "one_ahead s"
  then have r: "g_seconds s \<le> 60" "g_minutes s \<le> 59" "g_hours s \<le> 59"
    by (simp_all add: one_ahead_def)
  have sec: "g_seconds s \<noteq> 60 \<Longrightarrow> g_seconds s \<le> 59" using r(1) by unat_arith
  have m1: "g_minutes s + 1 \<noteq> 60 \<Longrightarrow> g_minutes s + 1 \<le> 59" using r(2) by unat_arith
  have h1: "g_hours s + 1 \<noteq> 60 \<Longrightarrow> g_hours s + 1 \<le> 59" using r(3) by unat_arith
  have m60: "g_minutes s \<noteq> 60" using r(2) by unat_arith
  have h60: "g_hours s \<noteq> 60" using r(3) by unat_arith
  from r sec m1 h1 m60 h60 show ?thesis
    by (simp add: in_range_def carry_defs Let_def)
qed

lemma loop_body_in_range: "one_ahead s \<Longrightarrow> in_range (loop_body s)"
  using carry_in_range [of s] loop_body_counters [of s] by (simp add: in_range_def)

lemma run_in_range:
  "\<forall>vs \<in> set rounds. ticks vs \<le> 1 \<Longrightarrow> in_range s \<Longrightarrow> in_range (run rounds s)"
proof (induction rounds arbitrary: s)
  case Nil
  then show ?case by simp
next
  case (Cons vs rounds)
  from Cons.prems have "one_ahead (interrupts vs s)" by (simp add: one_tick_one_ahead)
  then have "in_range (loop_body (interrupts vs s))" by (rule loop_body_in_range)
  with Cons.IH [of "loop_body (interrupts vs s)"] Cons.prems(1) show ?case by simp
qed

lemma in_range_below_160:
  "in_range t \<Longrightarrow> g_seconds t < 160 \<and> g_minutes t < 160 \<and> g_hours t < 160"
proof -
  assume "in_range t"
  then have r: "g_seconds t \<le> 59" "g_minutes t \<le> 59" "g_hours t \<le> 59"
    by (simp_all add: in_range_def)
  from r(1) have "g_seconds t < 160" by unat_arith
  moreover from r(2) have "g_minutes t < 160" by unat_arith
  moreover from r(3) have "g_hours t < 160" by unat_arith
  ultimately show ?thesis by simp
qed

lemma displays_receive_in_range:
  assumes "g_seconds s0 = 0" and "g_minutes s0 = 0" and "g_hours s0 = 0"
    and "\<forall>vs \<in> set rounds. ticks vs \<le> 1" and "ticks vs \<le> 1"
  shows "in_range (carry_normalization (interrupts vs (run rounds s0)))"
proof -
  from assms(1-3) have "in_range s0" by (simp add: in_range_def)
  with assms(4) have "in_range (run rounds s0)" by (rule run_in_range)
  with assms(5) have "one_ahead (interrupts vs (run rounds s0))" by (rule one_tick_one_ahead)
  then show ?thesis by (rule carry_in_range)
qed






section \<open>The display routines\<close>

text \<open>Masking a byte: what the two port writes of a display half keep and what they set.\<close>

lemma enable_high: "e AND 0xC0 = 0 \<Longrightarrow> ((p AND 0xC0) OR e) AND 0xC0 = p AND (0xC0 :: 8 word)"
  by (simp add: word_ao_dist word_bw_assocs)

lemma ep0: "enabled_positions ((p AND 0xC0) OR 0x01) = [0]"
  by (simp add: enabled_positions_def upt_rec bit_simps)
lemma ep1: "enabled_positions ((p AND 0xC0) OR 0x02) = [1]"
  by (simp add: enabled_positions_def upt_rec bit_simps)
lemma ep2: "enabled_positions ((p AND 0xC0) OR 0x04) = [2]"
  by (simp add: enabled_positions_def upt_rec bit_simps)
lemma ep3: "enabled_positions ((p AND 0xC0) OR 0x08) = [3]"
  by (simp add: enabled_positions_def upt_rec bit_simps)
lemma ep4: "enabled_positions ((p AND 0xC0) OR 0x10) = [4]"
  by (simp add: enabled_positions_def upt_rec bit_simps)
lemma ep5: "enabled_positions ((p AND 0xC0) OR 0x20) = [5]"
  by (simp add: enabled_positions_def upt_rec bit_simps)

lemma nib_hi: "(x::8 word) < 16 \<Longrightarrow> x AND 0xF0 = 0"
proof -
  assume "x < 16"
  then have "x < 2 ^ 4" by simp
  then have "x AND mask 4 = x" by (rule less_mask_eq)
  then have "x AND 0xF0 = (x AND mask 4) AND 0xF0" by simp
  also have "\<dots> = x AND (mask 4 AND 0xF0)" by (simp only: word_bw_assocs)
  also have "mask 4 AND (0xF0 :: 8 word) = 0" by (simp add: mask_eq_exp_minus_1)
  finally show ?thesis by simp
qed

lemma nib_lo: "(x::8 word) < 16 \<Longrightarrow> x AND 0x0F = x"
  using less_mask_eq [of x 4] by (simp add: mask_eq_exp_minus_1)

lemma digit_write:
  assumes "(d::8 word) < 16"
  shows "((c AND 0xF0) OR d) AND 0xF0 = c AND 0xF0 \<and> ((c AND 0xF0) OR d) AND 0x0F = d"
proof -
  have "((c AND 0xF0) OR d) AND 0xF0 = (c AND 0xF0) OR (d AND 0xF0)"
    by (simp add: word_ao_dist word_bw_assocs)
  moreover have "((c AND 0xF0) OR d) AND 0x0F = d AND 0x0F"
    by (simp add: word_ao_dist word_bw_assocs)
  ultimately show ?thesis
    using nib_hi [OF assms] nib_lo [OF assms] by simp
qed

lemma mod10_digit: "(v::8 word) mod 10 < 16"
proof -
  have "unat (v mod 10) = unat v mod 10" by (simp add: unat_mod_distrib)
  moreover have "unat v mod 10 < 10" by simp
  ultimately have "unat (v mod 10) < unat (16 :: 8 word)" by simp
  then show ?thesis by (simp only: word_less_nat_alt)
qed

lemma div10_digit: "(v::8 word) < 160 \<Longrightarrow> v div 10 < 16"
proof -
  assume "v < 160"
  then have "unat v < 160" by (simp add: word_less_nat_alt)
  then have "unat v div 10 < 16" by simp
  moreover have "unat (v div 10) = unat v div 10" by (simp add: unat_div_distrib)
  ultimately have "unat (v div 10) < unat (16 :: 8 word)" by simp
  then show ?thesis by (simp only: word_less_nat_alt)
qed



lemma display_ports:
  "PORTA (Display_Seconds_ones s) = (PORTA s AND 0xC0) OR 0x01 \<and>
   PORTC (Display_Seconds_ones s) = (PORTC s AND 0xF0) OR (g_seconds s mod 10) \<and>
   PORTA (Display_Seconds s) = (PORTA s AND 0xC0) OR 0x02 \<and>
   PORTC (Display_Seconds s) = (PORTC s AND 0xF0) OR (g_seconds s div 10) \<and>
   PORTA (Display_Minutes_ones s) = (PORTA s AND 0xC0) OR 0x04 \<and>
   PORTC (Display_Minutes_ones s) = (PORTC s AND 0xF0) OR (g_minutes s mod 10) \<and>
   PORTA (Display_Minutes s) = (PORTA s AND 0xC0) OR 0x08 \<and>
   PORTC (Display_Minutes s) = (PORTC s AND 0xF0) OR (g_minutes s div 10) \<and>
   PORTA (Display_Hours_ones s) = (PORTA s AND 0xC0) OR 0x10 \<and>
   PORTC (Display_Hours_ones s) = (PORTC s AND 0xF0) OR (g_hours s mod 10) \<and>
   PORTA (Display_Hours s) = (PORTA s AND 0xC0) OR 0x20 \<and>
   PORTC (Display_Hours s) = (PORTC s AND 0xF0) OR (g_hours s div 10)"
proof -
  have keep: "((c AND 0xF0) OR (v mod 10)) AND 0xF0 = c AND 0xF0" for c v :: "8 word"
    using digit_write [OF mod10_digit, of c v] by simp
  show ?thesis
    by (simp add: display_defs Let_def keep enable_high)
qed

text \<open>
  C3, as the code has it. A display routine keeps only bits 6 and 7 of \<open>PORTA\<close>, which
  enable no display position. It rewrites all six enable bits: after the call the enable
  bit of the tens position of its own field is set and the other five, among them the
  four of the other two fields, are clear.
\<close>

theorem display_rewrites_all_enable_bits:
  "PORTA (Display_Seconds s) = (PORTA s AND 0xC0) OR 0x02 \<and>
   PORTA (Display_Minutes s) = (PORTA s AND 0xC0) OR 0x08 \<and>
   PORTA (Display_Hours s) = (PORTA s AND 0xC0) OR 0x20 \<and>
   enabled_positions (PORTA (Display_Seconds s)) = [1] \<and>
   enabled_positions (PORTA (Display_Minutes s)) = [3] \<and>
   enabled_positions (PORTA (Display_Hours s)) = [5] \<and>
   PORTA (Display_Seconds s) AND 0xC0 = PORTA s AND 0xC0 \<and>
   PORTA (Display_Minutes s) AND 0xC0 = PORTA s AND 0xC0 \<and>
   PORTA (Display_Hours s) AND 0xC0 = PORTA s AND 0xC0"
proof -
  have hi: "((PORTA s AND 0xC0) OR 0x02) AND 0xC0 = PORTA s AND 0xC0 \<and>
      ((PORTA s AND 0xC0) OR 0x08) AND 0xC0 = PORTA s AND 0xC0 \<and>
      ((PORTA s AND 0xC0) OR 0x20) AND 0xC0 = PORTA s AND 0xC0"
    by (simp add: enable_high)
  with display_ports [of s] show ?thesis
    by (simp only: ep1 ep3 ep5 simp_thms)
qed

text \<open>
  The claim as it is written, that the enable bits of the other four positions are the
  same after the call as before, fails when such a bit is set before the call: with
  position 5 enabled, as \<open>Display_Hours\<close> leaves it, \<open>Display_Seconds\<close> disables it.
\<close>

theorem display_frame_counterexample:
  "bit (PORTA (zero_state\<lparr>PORTA := 0x20\<rparr>)) 5 \<and>
   \<not> bit (PORTA (Display_Seconds (zero_state\<lparr>PORTA := 0x20\<rparr>))) 5"
  by (simp add: display_defs zero_state_def Let_def)

lemma tens_digit_write:
  assumes "v < 160" and "PORTC s' = (PORTC s AND 0xF0) OR (v div 10)"
  shows "PORTC s' AND 0xF0 = PORTC s AND 0xF0 \<and> PORTC s' AND 0x0F = v div 10"
  using digit_write [OF div10_digit [OF assms(1)], of "PORTC s"] assms(2) by simp

lemma display_counters:
  "g_seconds (Display_Seconds s) = g_seconds s \<and> g_minutes (Display_Seconds s) = g_minutes s \<and>
   g_hours (Display_Seconds s) = g_hours s \<and>
   g_seconds (Display_Minutes s) = g_seconds s \<and> g_minutes (Display_Minutes s) = g_minutes s \<and>
   g_hours (Display_Minutes s) = g_hours s"
  by (simp add: display_defs Let_def)

text \<open>
  C10. After each half of each display routine, whatever \<open>PORTA\<close> held before, exactly one
  of the six enable bits is set: positions 0 and 1 for the seconds, 2 and 3 for the
  minutes, 4 and 5 for the hours. The write of the ones digit keeps the upper four bits
  of \<open>PORTC\<close> and puts the counter modulo 10 into the lower four. The write of the tens
  digit keeps the upper four bits and puts the counter divided by 10 into the lower four
  whenever the counter is below 160. The counters the display routines receive are below
  160: in every run that starts with the counters at 0 and has at most one timer
  interrupt per round, the three display calls of a pass, made in turn on the state the
  carry step leaves, each keep the upper four bits of \<open>PORTC\<close> and write the tens digit
  into the lower four.
\<close>

theorem display_sub_steps:
  "enabled_positions (PORTA (Display_Seconds_ones s)) = [0] \<and>
   enabled_positions (PORTA (Display_Seconds s)) = [1] \<and>
   enabled_positions (PORTA (Display_Minutes_ones s)) = [2] \<and>
   enabled_positions (PORTA (Display_Minutes s)) = [3] \<and>
   enabled_positions (PORTA (Display_Hours_ones s)) = [4] \<and>
   enabled_positions (PORTA (Display_Hours s)) = [5] \<and>
   PORTC (Display_Seconds_ones s) AND 0xF0 = PORTC s AND 0xF0 \<and>
   PORTC (Display_Seconds_ones s) AND 0x0F = g_seconds s mod 10 \<and>
   PORTC (Display_Minutes_ones s) AND 0xF0 = PORTC s AND 0xF0 \<and>
   PORTC (Display_Minutes_ones s) AND 0x0F = g_minutes s mod 10 \<and>
   PORTC (Display_Hours_ones s) AND 0xF0 = PORTC s AND 0xF0 \<and>
   PORTC (Display_Hours_ones s) AND 0x0F = g_hours s mod 10 \<and>
   (g_seconds s < 160 \<longrightarrow>
      PORTC (Display_Seconds s) AND 0xF0 = PORTC s AND 0xF0 \<and>
      PORTC (Display_Seconds s) AND 0x0F = g_seconds s div 10) \<and>
   (g_minutes s < 160 \<longrightarrow>
      PORTC (Display_Minutes s) AND 0xF0 = PORTC s AND 0xF0 \<and>
      PORTC (Display_Minutes s) AND 0x0F = g_minutes s div 10) \<and>
   (g_hours s < 160 \<longrightarrow>
      PORTC (Display_Hours s) AND 0xF0 = PORTC s AND 0xF0 \<and>
      PORTC (Display_Hours s) AND 0x0F = g_hours s div 10) \<and>
   (g_seconds s0 = 0 \<and> g_minutes s0 = 0 \<and> g_hours s0 = 0 \<and>
    (\<forall>vs \<in> set rounds. ticks vs \<le> 1) \<and> ticks vs \<le> 1 \<longrightarrow>
      (let t = carry_normalization (interrupts vs (run rounds s0));
           t1 = Display_Seconds t;
           t2 = Display_Minutes t1;
           t3 = Display_Hours t2
       in g_seconds t < 160 \<and> g_minutes t1 < 160 \<and> g_hours t2 < 160 \<and>
          PORTC t1 AND 0xF0 = PORTC t AND 0xF0 \<and>
          PORTC t1 AND 0x0F = g_seconds t div 10 \<and>
          PORTC t2 AND 0xF0 = PORTC t1 AND 0xF0 \<and>
          PORTC t2 AND 0x0F = g_minutes t1 div 10 \<and>
          PORTC t3 AND 0xF0 = PORTC t2 AND 0xF0 \<and>
          PORTC t3 AND 0x0F = g_hours t2 div 10))"
proof -
  have enable: "enabled_positions (PORTA (Display_Seconds_ones s)) = [0] \<and>
      enabled_positions (PORTA (Display_Seconds s)) = [1] \<and>
      enabled_positions (PORTA (Display_Minutes_ones s)) = [2] \<and>
      enabled_positions (PORTA (Display_Minutes s)) = [3] \<and>
      enabled_positions (PORTA (Display_Hours_ones s)) = [4] \<and>
      enabled_positions (PORTA (Display_Hours s)) = [5]"
    by (simp only: display_ports ep0 ep1 ep2 ep3 ep4 ep5 simp_thms)
  have ones: "PORTC (Display_Seconds_ones s) AND 0xF0 = PORTC s AND 0xF0 \<and>
      PORTC (Display_Seconds_ones s) AND 0x0F = g_seconds s mod 10 \<and>
      PORTC (Display_Minutes_ones s) AND 0xF0 = PORTC s AND 0xF0 \<and>
      PORTC (Display_Minutes_ones s) AND 0x0F = g_minutes s mod 10 \<and>
      PORTC (Display_Hours_ones s) AND 0xF0 = PORTC s AND 0xF0 \<and>
      PORTC (Display_Hours_ones s) AND 0x0F = g_hours s mod 10"
    by (simp only: display_ports digit_write [OF mod10_digit] simp_thms)
  have sec: "PORTC (Display_Seconds u) AND 0xF0 = PORTC u AND 0xF0 \<and>
      PORTC (Display_Seconds u) AND 0x0F = g_seconds u div 10" if "g_seconds u < 160" for u
    using that by (rule tens_digit_write) (simp only: display_ports)
  have mins: "PORTC (Display_Minutes u) AND 0xF0 = PORTC u AND 0xF0 \<and>
      PORTC (Display_Minutes u) AND 0x0F = g_minutes u div 10" if "g_minutes u < 160" for u
    using that by (rule tens_digit_write) (simp only: display_ports)
  have hrs: "PORTC (Display_Hours u) AND 0xF0 = PORTC u AND 0xF0 \<and>
      PORTC (Display_Hours u) AND 0x0F = g_hours u div 10" if "g_hours u < 160" for u
    using that by (rule tens_digit_write) (simp only: display_ports)
  have program: "(let t = carry_normalization (interrupts vs (run rounds s0));
           t1 = Display_Seconds t;
           t2 = Display_Minutes t1;
           t3 = Display_Hours t2
       in g_seconds t < 160 \<and> g_minutes t1 < 160 \<and> g_hours t2 < 160 \<and>
          PORTC t1 AND 0xF0 = PORTC t AND 0xF0 \<and>
          PORTC t1 AND 0x0F = g_seconds t div 10 \<and>
          PORTC t2 AND 0xF0 = PORTC t1 AND 0xF0 \<and>
          PORTC t2 AND 0x0F = g_minutes t1 div 10 \<and>
          PORTC t3 AND 0xF0 = PORTC t2 AND 0xF0 \<and>
          PORTC t3 AND 0x0F = g_hours t2 div 10)"
    if "g_seconds s0 = 0 \<and> g_minutes s0 = 0 \<and> g_hours s0 = 0 \<and>
      (\<forall>vs \<in> set rounds. ticks vs \<le> 1) \<and> ticks vs \<le> 1"
  proof -
    let ?t = "carry_normalization (interrupts vs (run rounds s0))"
    let ?t1 = "Display_Seconds ?t"
    let ?t2 = "Display_Minutes ?t1"
    from that have "in_range ?t"
      by (intro displays_receive_in_range) simp_all
    then have below: "g_seconds ?t < 160" "g_minutes ?t < 160" "g_hours ?t < 160"
      by (simp_all add: in_range_below_160)
    from below(2) have m: "g_minutes ?t1 < 160"
      by (simp add: display_counters)
    from below(3) have h: "g_hours ?t2 < 160"
      by (simp add: display_counters)
    from below(1) m h sec [OF below(1)] mins [OF m] hrs [OF h] show ?thesis
      by (simp only: Let_def simp_thms)
  qed
  from enable ones sec [of s] mins [of s] hrs [of s] program show ?thesis
    by blast
qed

theorem display_sub_steps_witness:
  "g_seconds (main_init zero_state) = 0 \<and> g_minutes (main_init zero_state) = 0 \<and>
   g_hours (main_init zero_state) = 0 \<and> ticks [TIMER1_COMPA_vect] \<le> 1 \<and>
   ticks [INT1_vect, INT2_vect] \<le> 1 \<and>
   g_seconds (carry_normalization (interrupts [INT1_vect, INT2_vect]
     (run (replicate 37 [TIMER1_COMPA_vect]) (main_init zero_state)))) = 37 \<and>
   g_seconds (carry_normalization (interrupts [INT1_vect, INT2_vect]
     (run (replicate 37 [TIMER1_COMPA_vect]) (main_init zero_state)))) < 160 \<and>
   PORTC (Display_Seconds (carry_normalization (interrupts [INT1_vect, INT2_vect]
     (run (replicate 37 [TIMER1_COMPA_vect]) (main_init zero_state))))) AND 0x0F = 3 \<and>
   enabled_positions (PORTA (Display_Seconds_ones (carry_normalization
     (interrupts [INT1_vect, INT2_vect]
       (run (replicate 37 [TIMER1_COMPA_vect]) (main_init zero_state)))))) = [0]"
proof -
  let ?a = "run (replicate 37 [TIMER1_COMPA_vect]) (main_init zero_state)"
  let ?t = "carry_normalization (interrupts [INT1_vect, INT2_vect] ?a)"
  have zero: "g_seconds (main_init zero_state) = 0" "g_minutes (main_init zero_state) = 0"
    "g_hours (main_init zero_state) = 0"
    by (simp_all add: init_defs zero_state_def Let_def)
  have one: "ticks [TIMER1_COMPA_vect] \<le> 1" and last: "ticks [INT1_vect, INT2_vect] \<le> 1"
    by (simp_all add: ticks_def)
  from one have rounds: "\<forall>vs \<in> set (replicate 37 [TIMER1_COMPA_vect]). ticks vs \<le> 1"
    by simp
  have "g_seconds (main_init zero_state) = of_nat 0"
    using zero(1) by simp
  from ticks_within_minute [OF this zero(2,3), of 37]
  have a: "g_seconds ?a = 37 \<and> g_minutes ?a = 0 \<and> g_hours ?a = 0"
    by simp
  then have t: "g_seconds ?t = 37"
    by (simp add: interrupts_def carry_defs Let_def)
  have digit: "(37 :: 8 word) div 10 = 3"
    by simp
  from display_sub_steps [of ?t "main_init zero_state" "replicate 37 [TIMER1_COMPA_vect]"
      "[INT1_vect, INT2_vect]"] zero rounds last
  have "g_seconds ?t < 160 \<and> PORTC (Display_Seconds ?t) AND 0x0F = g_seconds ?t div 10 \<and>
      enabled_positions (PORTA (Display_Seconds_ones ?t)) = [0]"
    by (simp only: Let_def simp_thms)
  with t digit have "g_seconds ?t < 160 \<and> PORTC (Display_Seconds ?t) AND 0x0F = 3 \<and>
      enabled_positions (PORTA (Display_Seconds_ones ?t)) = [0]"
    by (simp only:)
  with zero one last t show ?thesis
    by (simp only: simp_thms)
qed

section \<open>Pause and resume\<close>

text \<open>
  The pause handler clears CS10 and CS12 and leaves CS11 as it finds it. No statement of
  the program sets CS11, so it is clear in every state of every run that starts with it
  clear, as it is after a reset of the device.
\<close>

lemma pause_clock_select:
  "\<not> bit (TCCR1B (ISR INT1_vect s)) CS10 \<and> \<not> bit (TCCR1B (ISR INT1_vect s)) CS12 \<and>
   bit (TCCR1B (ISR INT1_vect s)) CS11 = bit (TCCR1B s) CS11"
  by (simp add: Let_def BV_def bit_positions bit_simps)

lemma CS11_stays_clear:
  "\<not> bit (TCCR1B s) CS11 \<Longrightarrow> \<not> bit (TCCR1B (ISR v s)) CS11"
  by (cases v) (simp_all add: Let_def BV_def bit_positions bit_simps)

lemma CS11_clear_after_init:
  "\<not> bit (TCCR1B s) CS11 \<Longrightarrow> \<not> bit (TCCR1B (main_init s)) CS11"
  by (simp add: init_defs Let_def BV_def bit_positions bit_simps)

lemma loop_body_TCCR1B:
  "TCCR1B (loop_body s) = TCCR1B s"
  by (simp add: loop_body_def display_defs carry_defs Let_def)

lemma CS11_clear_interrupts:
  "\<not> bit (TCCR1B s) CS11 \<Longrightarrow> \<not> bit (TCCR1B (interrupts vs s)) CS11"
  unfolding interrupts_def
  by (induction vs arbitrary: s) (simp_all add: CS11_stays_clear del: ISR.simps)

lemma CS11_clear_run:
  "\<not> bit (TCCR1B s) CS11 \<Longrightarrow> \<not> bit (TCCR1B (run rounds s)) CS11"
  by (induction rounds arbitrary: s) (simp_all add: CS11_clear_interrupts loop_body_TCCR1B)

lemma CS11_clear_in_program:
  "\<not> bit (TCCR1B s) CS11 \<Longrightarrow>
   \<not> bit (TCCR1B (interrupts vs (run rounds (main_init s)))) CS11"
  by (simp add: CS11_clear_interrupts CS11_clear_run CS11_clear_after_init)

text \<open>
  C6. In every state of the program, that is in every state of every run from a start with
  CS11 clear, and more generally in every state with CS11 clear, the pause handler leaves
  the three clock-select bits clear, so that the timer is stopped. In every state it
  leaves seconds, minutes and hours unchanged, and running it twice gives the same state
  as running it once, with the timer still stopped.
\<close>

theorem pause_stops_timer_idempotent:
  "(\<not> bit (TCCR1B s0) CS11 \<longrightarrow>
      timer_stopped (ISR INT1_vect (interrupts vs (run rounds (main_init s0)))) \<and>
      timer_stopped (ISR INT1_vect (ISR INT1_vect (interrupts vs (run rounds (main_init s0)))))) \<and>
   (\<not> bit (TCCR1B s) CS11 \<longrightarrow> timer_stopped (ISR INT1_vect s)) \<and>
   \<not> bit (TCCR1B (ISR INT1_vect s)) CS10 \<and>
   \<not> bit (TCCR1B (ISR INT1_vect s)) CS12 \<and>
   g_seconds (ISR INT1_vect s) = g_seconds s \<and>
   g_minutes (ISR INT1_vect s) = g_minutes s \<and>
   g_hours (ISR INT1_vect s) = g_hours s \<and>
   ISR INT1_vect (ISR INT1_vect s) = ISR INT1_vect s"
proof -
  have stops: "timer_stopped (ISR INT1_vect t)" if "\<not> bit (TCCR1B t) CS11" for t
    using that pause_clock_select [of t] by (simp add: timer_stopped_def)
  have twice: "ISR INT1_vect (ISR INT1_vect t) = ISR INT1_vect t" for t
    by (simp add: Let_def word_bw_assocs)
  have program: "timer_stopped (ISR INT1_vect (interrupts vs (run rounds (main_init s0)))) \<and>
      timer_stopped (ISR INT1_vect (ISR INT1_vect (interrupts vs (run rounds (main_init s0)))))"
    if "\<not> bit (TCCR1B s0) CS11"
    using stops [OF CS11_clear_in_program [OF that, of vs rounds]] by (simp only: twice)
  have counters: "g_seconds (ISR INT1_vect s) = g_seconds s \<and>
      g_minutes (ISR INT1_vect s) = g_minutes s \<and> g_hours (ISR INT1_vect s) = g_hours s"
    by (simp add: Let_def)
  from program stops [of s] pause_clock_select [of s] counters twice [of s] show ?thesis
    by blast
qed

theorem pause_stops_timer_idempotent_witness:
  "\<not> bit (TCCR1B zero_state) CS11 \<and>
   timer_stopped (ISR INT1_vect (interrupts [INT2_vect, TIMER1_COMPA_vect]
     (run [[TIMER1_COMPA_vect], [INT1_vect]] (main_init zero_state)))) \<and>
   \<not> bit (TCCR1B (main_init zero_state)) CS11 \<and>
   timer_stopped (ISR INT1_vect (main_init zero_state))"
proof -
  have power_on: "\<not> bit (TCCR1B zero_state) CS11"
    by (simp add: zero_state_def)
  have started: "\<not> bit (TCCR1B (main_init zero_state)) CS11"
    by (simp add: init_defs zero_state_def Let_def BV_def bit_positions)
  from power_on started
    pause_stops_timer_idempotent [of zero_state "[INT2_vect, TIMER1_COMPA_vect]"
      "[[TIMER1_COMPA_vect], [INT1_vect]]" "main_init zero_state"]
  show ?thesis
    by blast
qed

text \<open>
  While the timer is stopped a tick period changes nothing, and no statement of the loop
  body writes \<open>TCCR1B\<close>. A statement of the loop body changes no counter when none of the
  counters is 60.
\<close>

lemma elapse_one_pass: "elapse one_pass s = loop_body s"
  by (simp add: elapse_def one_pass_def loop_body_def carry_normalization_def)












end
